theory Spec2Isabelle
  imports Complex_Main
begin

section \<open>Floating-point values\<close>

text \<open>
  The filters of \<^verbatim>\<open>SSWM/preprocess/filters.py\<close> compute on numpy arrays of IEEE 754
  numbers. A sample is modelled as a finite real, one of the two infinities, or NaN.
  The special values follow IEEE 754 as numpy does with warnings only: \<open>x / 0\<close> is an
  infinity for \<open>x \<noteq> 0\<close> and NaN for \<open>x = 0\<close>, \<open>inf - inf\<close> and \<open>inf * 0\<close> are NaN,
  the square root of a negative number is NaN, every comparison with NaN is false,
  and NaN propagates through arithmetic. Zero is unsigned.

  An operation on finite values gives the exact real result: the rounding of the
  result to the precision of the dtype, and its overflow to an infinity, are not
  modelled. A statement below about the filters therefore holds of the program where
  the values involved are computed without rounding (small integers, dyadic
  fractions, the special values); what rounding alone can produce, such as a mean of
  squares below the squared mean, is supplied to the functions as an argument.
\<close>

datatype fl = Fin real | PInf | NInf | NaN

fun fneg :: "fl \<Rightarrow> fl" where
  "fneg (Fin x) = Fin (- x)"
| "fneg PInf = NInf"
| "fneg NInf = PInf"
| "fneg NaN = NaN"

fun fadd :: "fl \<Rightarrow> fl \<Rightarrow> fl" where
  "fadd (Fin x) (Fin y) = Fin (x + y)"
| "fadd (Fin x) PInf = PInf"
| "fadd (Fin x) NInf = NInf"
| "fadd PInf (Fin y) = PInf"
| "fadd PInf PInf = PInf"
| "fadd PInf NInf = NaN"
| "fadd NInf (Fin y) = NInf"
| "fadd NInf PInf = NaN"
| "fadd NInf NInf = NInf"
| "fadd NaN b = NaN"
| "fadd a NaN = NaN"

definition fsub :: "fl \<Rightarrow> fl \<Rightarrow> fl" where
  "fsub a b = fadd a (fneg b)"

text \<open>The infinity with the sign of a non-zero real.\<close>

definition inf_signed :: "real \<Rightarrow> fl" where
  "inf_signed s = (if 0 < s then PInf else NInf)"

fun fmul :: "fl \<Rightarrow> fl \<Rightarrow> fl" where
  "fmul (Fin x) (Fin y) = Fin (x * y)"
| "fmul (Fin x) PInf = (if x = 0 then NaN else inf_signed x)"
| "fmul (Fin x) NInf = (if x = 0 then NaN else inf_signed (- x))"
| "fmul PInf (Fin y) = (if y = 0 then NaN else inf_signed y)"
| "fmul NInf (Fin y) = (if y = 0 then NaN else inf_signed (- y))"
| "fmul PInf PInf = PInf"
| "fmul PInf NInf = NInf"
| "fmul NInf PInf = NInf"
| "fmul NInf NInf = PInf"
| "fmul NaN b = NaN"
| "fmul a NaN = NaN"

fun fdiv :: "fl \<Rightarrow> fl \<Rightarrow> fl" where
  "fdiv (Fin x) (Fin y) =
     (if y \<noteq> 0 then Fin (x / y) else if x = 0 then NaN else inf_signed x)"
| "fdiv (Fin x) PInf = Fin 0"
| "fdiv (Fin x) NInf = Fin 0"
| "fdiv PInf (Fin y) = (if 0 \<le> y then PInf else NInf)"
| "fdiv NInf (Fin y) = (if 0 \<le> y then NInf else PInf)"
| "fdiv PInf PInf = NaN"
| "fdiv PInf NInf = NaN"
| "fdiv NInf PInf = NaN"
| "fdiv NInf NInf = NaN"
| "fdiv NaN b = NaN"
| "fdiv a NaN = NaN"

fun fsqrt :: "fl \<Rightarrow> fl" where
  "fsqrt (Fin x) = (if x < 0 then NaN else Fin (sqrt x))"
| "fsqrt PInf = PInf"
| "fsqrt NInf = NaN"
| "fsqrt NaN = NaN"

fun fexp :: "fl \<Rightarrow> fl" where
  "fexp (Fin x) = Fin (exp x)"
| "fexp PInf = PInf"
| "fexp NInf = Fin 0"
| "fexp NaN = NaN"

text \<open>\<^verbatim>\<open>np.less\<close>, \<^verbatim>\<open>np.less_equal\<close> and \<^verbatim>\<open>np.greater_equal\<close> on two samples.\<close>

fun fless :: "fl \<Rightarrow> fl \<Rightarrow> bool" where
  "fless (Fin x) (Fin y) = (x < y)"
| "fless (Fin x) PInf = True"
| "fless NInf (Fin y) = True"
| "fless NInf PInf = True"
| "fless a b = False"

fun fless_equal :: "fl \<Rightarrow> fl \<Rightarrow> bool" where
  "fless_equal (Fin x) (Fin y) = (x \<le> y)"
| "fless_equal NaN b = False"
| "fless_equal a NaN = False"
| "fless_equal a PInf = True"
| "fless_equal NInf b = True"
| "fless_equal a b = False"

definition fgreater_equal :: "fl \<Rightarrow> fl \<Rightarrow> bool" where
  "fgreater_equal a b = fless_equal b a"

text \<open>A boolean array entry used as a factor is the number 0 or 1.\<close>

definition of_mask :: "bool \<Rightarrow> fl" where
  "of_mask b = (if b then Fin 1 else Fin 0)"

section \<open>Arrays\<close>

text \<open>
  A two-dimensional array is the list of its rows. An input array carries its dtype:
  a signed or an unsigned integer array of a given width in bits (8, 16, 32 or 64 in
  numpy), whose entries are kept in the range of that width, or a floating-point array
  (\<^verbatim>\<open>float32\<close> samples).
\<close>

type_synonym 'a array2 = "'a list list"

datatype ndarray = Ints nat "int array2" | UInts nat "int array2" | Floats "fl array2"

definition map2d :: "('a \<Rightarrow> 'b) \<Rightarrow> 'a array2 \<Rightarrow> 'b array2" where
  "map2d f a = map (map f) a"

definition zip2d :: "('a \<Rightarrow> 'b \<Rightarrow> 'c) \<Rightarrow> 'a array2 \<Rightarrow> 'b array2 \<Rightarrow> 'c array2" where
  "zip2d f a b = map2 (map2 f) a b"

text \<open>
  The conversion of an integer to a floating-point format with a significand of \<open>p\<close>
  bits (24 for \<^verbatim>\<open>float32\<close>, 53 for \<^verbatim>\<open>float64\<close>): an integer of at most \<open>p\<close> bits is
  kept, a longer one is rounded to the nearest multiple of the power of two that
  leaves \<open>p\<close> bits, a tie going to the even multiple. No 64-bit integer overflows.
\<close>

fun bit_length :: "nat \<Rightarrow> nat" where
  "bit_length n = (if n = 0 then 0 else Suc (bit_length (n div 2)))"

declare bit_length.simps [simp del]

definition round_int :: "nat \<Rightarrow> int \<Rightarrow> int" where
  "round_int p x =
     (let a = nat \<bar>x\<bar>; e = bit_length a in
      if e \<le> p then x
      else (let q = 2 ^ (e - p); k = a div q; r = a mod q;
                k' = (if q < 2 * r \<or> (2 * r = q \<and> odd k) then k + 1 else k)
            in sgn x * int (k' * q)))"

definition int_to_float :: "nat \<Rightarrow> int \<Rightarrow> fl" where
  "int_to_float p x = Fin (real_of_int (round_int p x))"

text \<open>\<^verbatim>\<open>np.array(img, dtype='float32')\<close>: a new \<^verbatim>\<open>float32\<close> array with the values of \<open>img\<close>.\<close>

fun astype_float32 :: "ndarray \<Rightarrow> fl array2" where
  "astype_float32 (Ints bits a) = map2d (int_to_float 24) a"
| "astype_float32 (UInts bits a) = map2d (int_to_float 24) a"
| "astype_float32 (Floats a) = a"

text \<open>
  The conversion numpy applies to an operand that meets a \<^verbatim>\<open>float64\<close> operand, and to
  both operands of a true division of integer arrays.
\<close>

fun astype_float64 :: "ndarray \<Rightarrow> fl array2" where
  "astype_float64 (Ints bits a) = map2d (int_to_float 53) a"
| "astype_float64 (UInts bits a) = map2d (int_to_float 53) a"
| "astype_float64 (Floats a) = a"

section \<open>The box filter of scipy\<close>

text \<open>
  \<^verbatim>\<open>scipy.ndimage.uniform_filter(input, size)\<close> with its defaults (mode \<^verbatim>\<open>reflect\<close>,
  origin 0). A size is an int, used for both axes, or a pair. An axis whose size is at
  most 1 is left alone; the other axes are filtered one after the other, axis 0 first,
  by \<^verbatim>\<open>uniform_filter1d\<close>: for size \<open>n\<close> the entry at \<open>l\<close> becomes the mean of the
  \<open>n\<close> entries from \<open>l - n div 2\<close> on, where an index outside the line is reflected at
  the edge (\<open>d c b a | a b c d | d c b a\<close>). scipy copies the line, extended on both
  sides, into a buffer and keeps a running sum: the sum of the first window is
  accumulated from 0, and for each further entry the difference of the entry that
  enters the window and the entry that leaves it is added. The entry stored is the
  running sum divided by \<open>n\<close>. So a NaN or an infinity in the line also reaches the
  entries after the windows that contain it.
\<close>

datatype window = WInt int | WPair int int

fun window_sizes :: "window \<Rightarrow> int \<times> int" where
  "window_sizes (WInt n) = (n, n)"
| "window_sizes (WPair n0 n1) = (n0, n1)"

definition reflect :: "int \<Rightarrow> nat \<Rightarrow> nat" where
  "reflect i n =
     (let j = i mod (2 * int n) in if j < int n then nat j else nat (2 * int n - 1 - j))"

definition fsum :: "fl list \<Rightarrow> fl" where
  "fsum vs = foldl fadd (Fin 0) vs"

text \<open>Entry \<open>k\<close> of the extended line, which starts \<open>n div 2\<close> entries before the line.\<close>

definition extended :: "fl list \<Rightarrow> nat \<Rightarrow> nat \<Rightarrow> fl" where
  "extended line n k = line ! reflect (int k - int (n div 2)) (length line)"

primrec running_sum :: "fl list \<Rightarrow> nat \<Rightarrow> nat \<Rightarrow> fl" where
  "running_sum line n 0 = fsum (map (extended line n) [0..<n])"
| "running_sum line n (Suc l) =
     fadd (running_sum line n l) (fsub (extended line n (l + n)) (extended line n l))"

definition uniform_filter1d :: "fl list \<Rightarrow> nat \<Rightarrow> fl list" where
  "uniform_filter1d line n =
     map (\<lambda>l. fdiv (running_sum line n l) (Fin (real n))) [0..<length line]"

definition ncols :: "'a array2 \<Rightarrow> nat" where
  "ncols a = (case a of [] \<Rightarrow> 0 | r # _ \<Rightarrow> length r)"

text \<open>A one-dimensional filter applied to every column (axis 0) or every row (axis 1).\<close>

definition filter_axis0 :: "('a list \<Rightarrow> 'a list) \<Rightarrow> 'a array2 \<Rightarrow> 'a array2" where
  "filter_axis0 f a =
     (let cols = map (\<lambda>j. f (map (\<lambda>r. r ! j) a)) [0..<ncols a]
      in map (\<lambda>i. map (\<lambda>c. c ! i) cols) [0..<length a])"

definition filter_axis1 :: "('a list \<Rightarrow> 'a list) \<Rightarrow> 'a array2 \<Rightarrow> 'a array2" where
  "filter_axis1 f a = map f a"

definition uniform_filter_with ::
  "('a list \<Rightarrow> nat \<Rightarrow> 'a list) \<Rightarrow> 'a array2 \<Rightarrow> window \<Rightarrow> 'a array2" where
  "uniform_filter_with f1d a w =
     (let (s0, s1) = window_sizes w;
          a0 = (if 1 < s0 then filter_axis0 (\<lambda>line. f1d line (nat s0)) a else a)
      in if 1 < s1 then filter_axis1 (\<lambda>line. f1d line (nat s1)) a0 else a0)"

definition uniform_filter :: "fl array2 \<Rightarrow> window \<Rightarrow> fl array2" where
  "uniform_filter a w = uniform_filter_with uniform_filter1d a w"

section \<open>Windowed statistics\<close>

definition np_square :: "fl array2 \<Rightarrow> fl array2" where
  "np_square a = map2d (\<lambda>v. fmul v v) a"

text \<open>\<^verbatim>\<open>window_stdev(img, window, img_mean=None, img_sqr_mean=None)\<close>\<close>

definition window_stdev ::
  "fl array2 \<Rightarrow> window \<Rightarrow> fl array2 option \<Rightarrow> fl array2 option \<Rightarrow> fl array2" where
  "window_stdev img w img_mean img_sqr_mean =
     (let img_mean = (case img_mean of None \<Rightarrow> uniform_filter img w | Some m \<Rightarrow> m);
          img_sqr_mean = (case img_sqr_mean of None \<Rightarrow> uniform_filter (np_square img) w
                          | Some q \<Rightarrow> q);
          std = map2d fsqrt (zip2d fsub img_sqr_mean (np_square img_mean))
      in std)"

text \<open>
  \<^verbatim>\<open>moving_window_sd(data, window, return_mean=False, return_variance=False)\<close>, by
  value: \<open>t1\<close> and \<open>t2\<close> are rebound where the source overwrites the buffer. The
  result is \<open>t2\<close> and, when \<open>return_mean\<close> is set, the mean \<open>m\<close>.
\<close>

definition clamp_negative :: "fl \<Rightarrow> fl" where
  "clamp_negative v = (if fless v (Fin 0) then Fin 0 else v)"

definition moving_window_sd ::
  "fl array2 \<Rightarrow> window \<Rightarrow> bool \<Rightarrow> bool \<Rightarrow> fl array2 \<times> fl array2 option" where
  "moving_window_sd data w return_mean return_variance =
     (let t1 = data;
          t2 = np_square t1;
          t1 = uniform_filter t1 w;
          t2 = uniform_filter t2 w;
          m = (if return_mean then Some t1 else None);
          t1 = np_square t1;
          t2 = zip2d fsub t2 t1;
          t2 = map2d clamp_negative t2;
          t2 = (if \<not> return_variance then map2d fsqrt t2 else t2)
      in (t2, m))"

section \<open>Labels and variance of scipy\<close>

text \<open>
  \<^verbatim>\<open>scipy.ndimage.label(input)\<close> with the default structuring element: every non-zero
  entry is a feature, two features are connected when they are neighbours along a row
  or a column, each connected region gets one label, the regions are numbered from 1 in
  the order in which a row-major scan meets them, and the background is 0. The
  regions are found here by giving every feature its row-major position plus one and
  replacing, as many times as the array has entries, the number of every feature by
  the least number among it and its neighbours; a region then carries the number of
  its first entry.
\<close>

definition nonzero :: "fl \<Rightarrow> bool" where
  "nonzero v = (v \<noteq> Fin 0)"

definition at0 :: "nat array2 \<Rightarrow> nat \<Rightarrow> nat \<Rightarrow> nat" where
  "at0 ids i j = (if i < length ids \<and> j < length (ids ! i) then ids ! i ! j else 0)"

definition min_pos :: "nat \<Rightarrow> nat \<Rightarrow> nat" where
  "min_pos a b = (if a = 0 then b else if b = 0 then a else min a b)"

definition label_init :: "fl array2 \<Rightarrow> nat array2" where
  "label_init a =
     map (\<lambda>i. map (\<lambda>j. if nonzero (a ! i ! j) then i * ncols a + j + 1 else 0)
                  [0..<length (a ! i)])
         [0..<length a]"

definition label_step :: "nat array2 \<Rightarrow> nat array2" where
  "label_step ids =
     map (\<lambda>i. map (\<lambda>j. if ids ! i ! j = 0 then 0
                       else min_pos (ids ! i ! j)
                             (min_pos (if 0 < i then at0 ids (i - 1) j else 0)
                               (min_pos (at0 ids (i + 1) j)
                                 (min_pos (if 0 < j then at0 ids i (j - 1) else 0)
                                          (at0 ids i (j + 1))))))
                  [0..<length (ids ! i)])
         [0..<length ids]"

definition label_roots :: "fl array2 \<Rightarrow> nat array2" where
  "label_roots a = (label_step ^^ (length a * ncols a)) (label_init a)"

definition label :: "fl array2 \<Rightarrow> nat array2 \<times> nat" where
  "label a =
     (let ids = label_roots a;
          roots = remdups (filter (\<lambda>r. 0 < r) (concat ids));
          lbl = zip2d (\<lambda>v r. if nonzero v then Suc (length (filter (\<lambda>q. q < r) roots)) else 0)
                      a ids
      in (lbl, length roots))"

text \<open>
  \<^verbatim>\<open>scipy.ndimage.variance(input, labels=None, index=None)\<close>: the population variance of
  all entries, or, when labels are given (and no index), of the entries whose label
  is positive, taken together as one group.
\<close>

definition variance_vals :: "fl list \<Rightarrow> fl" where
  "variance_vals vals =
     (let cnt = Fin (real (length vals));
          mean = fdiv (fsum vals) cnt;
          sum_c_sq = fsum (map (\<lambda>v. fmul (fsub v mean) (fsub v mean)) vals)
      in fdiv sum_c_sq cnt)"

definition variance :: "fl array2 \<Rightarrow> nat array2 option \<Rightarrow> fl" where
  "variance input labels =
     (case labels of
        None \<Rightarrow> variance_vals (concat input)
      | Some lbl \<Rightarrow>
          variance_vals (map fst (filter (\<lambda>(v, l). 0 < l) (zip (concat input) (concat lbl)))))"

section \<open>The Lee filter\<close>

text \<open>
  \<^verbatim>\<open>lee_filter(img, window=(5,5))\<close>, by value: \<open>d\<close>, \<open>overall_variance\<close> and
  \<open>img_variance\<close> are rebound where the source writes into the buffer (\<^verbatim>\<open>out=\<close>).
\<close>

definition lee_filter :: "ndarray \<Rightarrow> window \<Rightarrow> fl array2" where
  "lee_filter img w =
     (let d = astype_float32 img;
          (img_variance, m) = moving_window_sd d w True True;
          img_mean = the m;
          (lbl, nlbl) = label d;
          overall_variance = variance d (Some lbl);
          overall_variance = map2d (\<lambda>v. fadd overall_variance v) img_variance;
          d = zip2d fsub d img_mean;
          img_variance = zip2d fdiv img_variance overall_variance;
          d = zip2d fmul img_variance d;
          d = zip2d fadd img_mean d
      in d)"

text \<open>
  \<^verbatim>\<open>lee_filter2(img, window=(3,3))\<close> does not convert its input, so each numpy operation
  works in the dtype of its operands. On two integer arrays of one dtype the result is
  an integer array of that dtype, reduced into its range (two's complement for a
  signed dtype, modulo \<open>2 ^ bits\<close> for an unsigned one); \<^verbatim>\<open>uniform_filter\<close> gives an
  array of the dtype of its input: it filters each line in \<^verbatim>\<open>float64\<close> and stores each
  entry converted to the dtype, that is truncated towards zero, after each axis;
  \<^verbatim>\<open>variance\<close> returns a floating-point number; \<open>/\<close> is true division and gives a
  floating-point array; an operation with a floating-point operand is done in floating
  point.
\<close>

definition wrap :: "nat \<Rightarrow> int \<Rightarrow> int" where
  "wrap bits x = signed_take_bit (bits - 1) x"

definition uwrap :: "nat \<Rightarrow> int \<Rightarrow> int" where
  "uwrap bits x = take_bit bits x"

text \<open>The C conversion of a floating-point number to an integer type.\<close>

fun trunc :: "fl \<Rightarrow> int" where
  "trunc (Fin x) = (if x < 0 then \<lceil>x\<rceil> else \<lfloor>x\<rfloor>)"
| "trunc v = 0"

definition uniform_filter1d_int :: "int list \<Rightarrow> nat \<Rightarrow> int list" where
  "uniform_filter1d_int line n =
     map trunc (uniform_filter1d (map (int_to_float 53) line) n)"

fun nd_uniform_filter :: "ndarray \<Rightarrow> window \<Rightarrow> ndarray" where
  "nd_uniform_filter (Ints bits a) w = Ints bits (uniform_filter_with uniform_filter1d_int a w)"
| "nd_uniform_filter (UInts bits a) w = UInts bits (uniform_filter_with uniform_filter1d_int a w)"
| "nd_uniform_filter (Floats a) w = Floats (uniform_filter a w)"

text \<open>
  An arithmetic operation of numpy on two arrays, given as the operation on integers
  and the operation on floating-point numbers. A signed and an unsigned array (a pair
  that \<^verbatim>\<open>lee_filter2\<close> never forms) are promoted to the signed dtype that holds both,
  or to \<^verbatim>\<open>float64\<close> when there is none.
\<close>

definition promote :: "nat \<Rightarrow> nat \<Rightarrow> nat" where
  "promote s u = (if u < s then s else 2 * u)"

fun nd_binop ::
  "(int \<Rightarrow> int \<Rightarrow> int) \<Rightarrow> (fl \<Rightarrow> fl \<Rightarrow> fl) \<Rightarrow> ndarray \<Rightarrow> ndarray \<Rightarrow> ndarray" where
  "nd_binop fi ff (Ints bits a) (Ints bits' b) =
     Ints (max bits bits') (zip2d (\<lambda>x y. wrap (max bits bits') (fi x y)) a b)"
| "nd_binop fi ff (UInts bits a) (UInts bits' b) =
     UInts (max bits bits') (zip2d (\<lambda>x y. uwrap (max bits bits') (fi x y)) a b)"
| "nd_binop fi ff (Ints bits a) (UInts bits' b) =
     (if promote bits bits' \<le> 64
      then Ints (promote bits bits') (zip2d (\<lambda>x y. wrap (promote bits bits') (fi x y)) a b)
      else Floats (zip2d ff (map2d (int_to_float 53) a) (map2d (int_to_float 53) b)))"
| "nd_binop fi ff (UInts bits a) (Ints bits' b) =
     (if promote bits' bits \<le> 64
      then Ints (promote bits' bits) (zip2d (\<lambda>x y. wrap (promote bits' bits) (fi x y)) a b)
      else Floats (zip2d ff (map2d (int_to_float 53) a) (map2d (int_to_float 53) b)))"
| "nd_binop fi ff a b = Floats (zip2d ff (astype_float64 a) (astype_float64 b))"

definition nd_square :: "ndarray \<Rightarrow> ndarray" where
  "nd_square a = nd_binop (\<lambda>x y. x * y) fmul a a"

definition nd_true_divide :: "ndarray \<Rightarrow> ndarray \<Rightarrow> ndarray" where
  "nd_true_divide a b = Floats (zip2d fdiv (astype_float64 a) (astype_float64 b))"

definition lee_filter2 :: "ndarray \<Rightarrow> window \<Rightarrow> ndarray" where
  "lee_filter2 img w =
     (let img_mean = nd_uniform_filter img w;
          img_sqr = nd_square img;
          img_sqr_mean = nd_uniform_filter img_sqr w;
          img_variance = nd_binop (\<lambda>x y. x - y) fsub img_sqr_mean (nd_square img_mean);
          overall_variance = variance (astype_float64 img) None;
          img_weights = nd_true_divide img_variance
                          (Floats (map2d (\<lambda>v. fadd v overall_variance)
                                         (astype_float64 img_variance)));
          img_output = nd_binop (\<lambda>x y. x + y) fadd img_mean
                         (nd_binop (\<lambda>x y. x * y) fmul img_weights
                            (nd_binop (\<lambda>x y. x - y) fsub img img_mean))
      in img_output)"

section \<open>The enhanced Lee filter\<close>

text \<open>
  The exceptions. \<open>ConfigurationError\<close> is the error kind the specification names for
  an unknown filter; no statement of the source raises it.
\<close>

datatype error = KeyError | TypeError | ZeroDivisionError | ConfigurationError

text \<open>
  \<^verbatim>\<open>enhanced_lee_filter(img, looks, window=7, df=1)\<close>. \<open>looks\<close> and \<open>df\<close> are Python
  numbers; \<^verbatim>\<open>1 / looks\<close> raises ZeroDivisionError for \<open>looks = 0\<close>. The statements
  \<^verbatim>\<open>Im *= M1\<close> and \<^verbatim>\<open>Ic *= M3\<close> overwrite \<open>Im\<close> and \<open>Ic\<close> after their last other use.
\<close>

definition enhanced_lee_filter ::
  "ndarray \<Rightarrow> real \<Rightarrow> window \<Rightarrow> real \<Rightarrow> error + fl array2" where
  "enhanced_lee_filter img0 looks w df =
     (let img = astype_float32 img0 in
      if looks = 0 then Inl ZeroDivisionError
      else
       (let Cu = fsqrt (Fin (1 / looks));
            Cmax = fsqrt (Fin (1 + 2 / looks));
            Ic = img;
            Im = uniform_filter img w;
            S = window_stdev img w (Some Im) None;
            Ci = zip2d fdiv S Im;
            M2 = map2d (\<lambda>c. fless Cu c \<and> fless c Cmax) Ci;
            W = map2d fexp
                  (zip2d (\<lambda>x m. fmul x (of_mask m))
                     (map2d (\<lambda>c. fdiv (fmul (Fin (- df)) (fsub c Cu)) (fsub Cmax c)) Ci) M2);
            R2 = zip2d (\<lambda>x m. fmul x (of_mask m))
                   (zip2d fadd (zip2d fmul Im W)
                               (zip2d fmul Ic (map2d (\<lambda>v. fsub (Fin 1) v) W))) M2;
            M1 = map2d (\<lambda>c. fless_equal c Cu) Ci;
            Im' = zip2d (\<lambda>x m. fmul x (of_mask m)) Im M1;
            M3 = map2d (\<lambda>c. fgreater_equal c Cu) Ci;
            Ic' = zip2d (\<lambda>x m. fmul x (of_mask m)) Ic M3;
            R = zip2d fadd (zip2d fadd Im' R2) Ic'
        in Inr R))"

section \<open>The Lee filter on buffers\<close>

text \<open>
  The same two functions with their buffers made explicit, to follow which array each
  statement writes. Memory maps an address to an array; \<^verbatim>\<open>np.array(img, ...)\<close>,
  \<^verbatim>\<open>.copy()\<close> and an operation without \<^verbatim>\<open>out=\<close> allocate a new array, an operation
  with \<^verbatim>\<open>out=b\<close> and the masked assignment overwrite \<open>b\<close>, and \<^verbatim>\<open>del\<close> of the only
  reference releases the array.
\<close>

type_synonym addr = nat

record memory =
  cells :: "addr \<Rightarrow> ndarray option"
  next_free :: addr

definition alloc :: "fl array2 \<Rightarrow> memory \<Rightarrow> addr \<times> memory" where
  "alloc v mem =
     (next_free mem,
      mem\<lparr>cells := (cells mem)(next_free mem \<mapsto> Floats v), next_free := Suc (next_free mem)\<rparr>)"

definition store :: "addr \<Rightarrow> fl array2 \<Rightarrow> memory \<Rightarrow> memory" where
  "store a v mem = mem\<lparr>cells := (cells mem)(a \<mapsto> Floats v)\<rparr>"

definition release :: "addr \<Rightarrow> memory \<Rightarrow> memory" where
  "release a mem = mem\<lparr>cells := (cells mem)(a := None)\<rparr>"

definition load :: "memory \<Rightarrow> addr \<Rightarrow> fl array2" where
  "load mem a = (case cells mem a of None \<Rightarrow> [] | Some v \<Rightarrow> astype_float32 v)"

definition moving_window_sd_mem ::
  "addr \<Rightarrow> window \<Rightarrow> bool \<Rightarrow> bool \<Rightarrow> memory \<Rightarrow> (addr \<times> addr option) \<times> memory" where
  "moving_window_sd_mem data w return_mean return_variance mem0 =
     (let (t1, mem) = alloc (load mem0 data) mem0;
          (t2, mem) = alloc (np_square (load mem t1)) mem;
          mem = store t1 (uniform_filter (load mem t1) w) mem;
          mem = store t2 (uniform_filter (load mem t2) w) mem;
          (m, mem) = (if return_mean then (let (m, mem) = alloc (load mem t1) mem in (Some m, mem))
                      else (None, mem));
          mem = store t1 (np_square (load mem t1)) mem;
          mem = store t2 (zip2d fsub (load mem t2) (load mem t1)) mem;
          mem = store t2 (map2d clamp_negative (load mem t2)) mem;
          mem = release t1 mem;
          mem = (if \<not> return_variance then store t2 (map2d fsqrt (load mem t2)) mem else mem)
      in ((t2, m), mem))"

definition lee_filter_mem :: "addr \<Rightarrow> window \<Rightarrow> memory \<Rightarrow> addr \<times> memory" where
  "lee_filter_mem img w mem0 =
     (let (d, mem) = alloc (load mem0 img) mem0;
          ((img_variance, m), mem) = moving_window_sd_mem d w True True mem;
          img_mean = the m;
          (lbl, nlbl) = label (load mem d);
          overall_variance = variance (load mem d) (Some lbl);
          (overall_variance, mem) =
             alloc (map2d (\<lambda>v. fadd overall_variance v) (load mem img_variance)) mem;
          mem = store d (zip2d fsub (load mem d) (load mem img_mean)) mem;
          mem = store img_variance
                  (zip2d fdiv (load mem img_variance) (load mem overall_variance)) mem;
          mem = release overall_variance mem;
          mem = store d (zip2d fmul (load mem img_variance) (load mem d)) mem;
          mem = store d (zip2d fadd (load mem img_mean) (load mem d)) mem
      in (d, mem))"

section \<open>The band filter driver\<close>

text \<open>
  \<^verbatim>\<open>filter_image(img, output=None, filter='lee', **kwargs)\<close>. The raster is a GDAL
  dataset: its bands, here floating-point arrays, and a count of the times its cache
  was flushed. The world holds the source dataset \<open>img\<close>, the datasets created under
  a path, and the sequence of the calls made on datasets and of the lines printed.
  \<^verbatim>\<open>ReadAsArray\<close> gives the stack of all bands (the source adds the band axis to the
  array of a single band), so \<open>arr\<close> is the list of the bands as they were when read.
\<close>

record dataset =
  ds_bands :: "fl array2 list"
  ds_flushed :: nat

datatype event =
    ReadAsArray
  | CloneRaster string
  | PrintBand nat
  | WriteArray "string option" nat
  | FlushCache "string option"

record world =
  source :: dataset
  files :: "string \<Rightarrow> dataset option"
  trace :: "event list"

definition log_event :: "event \<Rightarrow> world \<Rightarrow> world" where
  "log_event e wd = wd\<lparr>trace := trace wd @ [e]\<rparr>"

text \<open>
  Modelled from the spec: \<^verbatim>\<open>cloneRaster\<close> of \<^verbatim>\<open>SSWM.preprocess.preutils\<close>, which
  creates the raster sink "by cloning the source's georeferencing/metadata and
  allocating same-shaped bands": a new dataset under the path with as many bands of
  the same shape as the source, not yet flushed.
\<close>

definition cloneRaster :: "string \<Rightarrow> world \<Rightarrow> world" where
  "cloneRaster path wd =
     log_event (CloneRaster path)
       (wd\<lparr>files := (files wd)(path \<mapsto>
              \<lparr>ds_bands = map (map2d (\<lambda>v. Fin 0)) (ds_bands (source wd)), ds_flushed = 0\<rparr>)\<rparr>)"

text \<open>The dataset \<open>out\<close> is the source itself (\<open>None\<close>) or the dataset under a path.\<close>

definition write_band :: "string option \<Rightarrow> nat \<Rightarrow> fl array2 \<Rightarrow> dataset \<Rightarrow> dataset" where
  "write_band out band_i a ds = ds\<lparr>ds_bands := (ds_bands ds)[band_i := a]\<rparr>"

definition update_out :: "string option \<Rightarrow> (dataset \<Rightarrow> dataset) \<Rightarrow> world \<Rightarrow> world" where
  "update_out out f wd =
     (case out of
        None \<Rightarrow> wd\<lparr>source := f (source wd)\<rparr>
      | Some path \<Rightarrow> wd\<lparr>files := (files wd)(path := map_option f (files wd path))\<rparr>)"

definition WriteArray_band :: "string option \<Rightarrow> nat \<Rightarrow> fl array2 \<Rightarrow> world \<Rightarrow> world" where
  "WriteArray_band out band_i a wd =
     log_event (WriteArray out band_i) (update_out out (write_band out band_i a) wd)"

definition FlushCache_out :: "string option \<Rightarrow> world \<Rightarrow> world" where
  "FlushCache_out out wd =
     log_event (FlushCache out) (update_out out (\<lambda>ds. ds\<lparr>ds_flushed := Suc (ds_flushed ds)\<rparr>) wd)"

text \<open>
  The keyword arguments are forwarded to the filter. \<^verbatim>\<open>lee_filter\<close> accepts
  \<open>window\<close> only; \<^verbatim>\<open>enhanced_lee_filter\<close> requires \<open>looks\<close> and accepts \<open>window\<close>
  and \<open>df\<close>; a call with another or without a required argument raises TypeError.
\<close>

record kwargs =
  kw_window :: "window option"
  kw_looks :: "real option"
  kw_df :: "real option"

definition call_lee_filter :: "fl array2 \<Rightarrow> kwargs \<Rightarrow> error + fl array2" where
  "call_lee_filter band kw =
     (if kw_looks kw \<noteq> None \<or> kw_df kw \<noteq> None then Inl TypeError
      else Inr (lee_filter (Floats band)
                  (case kw_window kw of None \<Rightarrow> WPair 5 5 | Some w \<Rightarrow> w)))"

definition call_enhanced_lee_filter :: "fl array2 \<Rightarrow> kwargs \<Rightarrow> error + fl array2" where
  "call_enhanced_lee_filter band kw =
     (case kw_looks kw of
        None \<Rightarrow> Inl TypeError
      | Some looks \<Rightarrow>
          enhanced_lee_filter (Floats band) looks
            (case kw_window kw of None \<Rightarrow> WInt 7 | Some w \<Rightarrow> w)
            (case kw_df kw of None \<Rightarrow> 1 | Some df \<Rightarrow> df))"

text \<open>\<^verbatim>\<open>str.lower\<close> on the ASCII letters.\<close>

definition lower_char :: "char \<Rightarrow> char" where
  "lower_char c =
     (let n = (of_char c :: nat) in if 65 \<le> n \<and> n \<le> 90 then char_of (n + 32) else c)"

definition lower :: "string \<Rightarrow> string" where
  "lower s = map lower_char s"

definition filters :: "(string \<times> (fl array2 \<Rightarrow> kwargs \<Rightarrow> error + fl array2)) list" where
  "filters = [(''lee'', call_lee_filter), (''elee'', call_enhanced_lee_filter)]"

fun filter_bands ::
  "(fl array2 \<Rightarrow> error + fl array2) \<Rightarrow> fl array2 list \<Rightarrow> string option \<Rightarrow> nat list \<Rightarrow> world
     \<Rightarrow> error option \<times> world" where
  "filter_bands f arr out [] wd = (None, wd)"
| "filter_bands f arr out (band_i # rest) wd =
     (let wd = log_event (PrintBand (band_i + 1)) wd in
      case f (arr ! band_i) of
        Inl e \<Rightarrow> (Some e, wd)
      | Inr filtered \<Rightarrow> filter_bands f arr out rest (WriteArray_band out band_i filtered wd))"

text \<open>The result is the exception raised, if any, and the world as the call leaves it.\<close>

definition filter_image ::
  "world \<Rightarrow> string option \<Rightarrow> string \<Rightarrow> kwargs \<Rightarrow> error option \<times> world" where
  "filter_image wd output filter_name kw =
     (case map_of filters (lower filter_name) of
        None \<Rightarrow> (Some KeyError, wd)
      | Some f \<Rightarrow>
          (let arr = ds_bands (source wd);
               wd = log_event ReadAsArray wd;
               wd = (case output of None \<Rightarrow> wd | Some path \<Rightarrow> cloneRaster path wd);
               (r, wd) = filter_bands (\<lambda>band. f band kw) arr output
                           [0..<length (ds_bands (source wd))] wd
           in case r of
                Some e \<Rightarrow> (Some e, wd)
              | None \<Rightarrow> (None, FlushCache_out output wd)))"

section \<open>Auxiliary definitions for the proofs\<close>

text \<open>One round of the band loop of \<^verbatim>\<open>filter_image\<close> when the filter returns \<open>g band\<close>.\<close>

definition band_step ::
  "(fl array2 \<Rightarrow> fl array2) \<Rightarrow> fl array2 list \<Rightarrow> string option \<Rightarrow> nat \<Rightarrow> world \<Rightarrow> world" where
  "band_step g arr out i wd =
     WriteArray_band out i (g (arr ! i)) (log_event (PrintBand (i + 1)) wd)"

text \<open>
  The reading of the specification to compare with: the variance of one labelled
  region, which is what \<^verbatim>\<open>scipy.ndimage.variance(input, labels, index=k)\<close> gives.
\<close>

definition region_variance :: "fl array2 \<Rightarrow> nat array2 \<Rightarrow> nat \<Rightarrow> fl" where
  "region_variance input lbl k =
     variance_vals (map fst (filter (\<lambda>(v, l). l = k) (zip (concat input) (concat lbl))))"

text \<open>The array \<open>a\<close> has the entry \<open>x\<close> at row \<open>i\<close>, column \<open>j\<close>.\<close>

definition entry :: "'a array2 \<Rightarrow> nat \<Rightarrow> nat \<Rightarrow> 'a \<Rightarrow> bool" where
  "entry a i j x = (i < length a \<and> j < length (a ! i) \<and> a ! i ! j = x)"

text \<open>
  What \<^verbatim>\<open>enhanced_lee_filter\<close> computes at one pixel from the local mean, the local
  standard deviation and the original pixel: its array operations, entry by entry.
\<close>

definition enhanced_lee_pixel :: "fl \<Rightarrow> fl \<Rightarrow> real \<Rightarrow> fl \<Rightarrow> fl \<Rightarrow> fl \<Rightarrow> fl" where
  "enhanced_lee_pixel Cu Cmax df mean sd pixel =
     (let Ci = fdiv sd mean;
          M2 = (fless Cu Ci \<and> fless Ci Cmax);
          W = fexp (fmul (fdiv (fmul (Fin (- df)) (fsub Ci Cu)) (fsub Cmax Ci)) (of_mask M2));
          R2 = fmul (fadd (fmul mean W) (fmul pixel (fsub (Fin 1) W))) (of_mask M2);
          M1 = fless_equal Ci Cu;
          M3 = fgreater_equal Ci Cu
      in fadd (fadd (fmul mean (of_mask M1)) R2) (fmul pixel (of_mask M3)))"

text \<open>
  The array operations that end \<^verbatim>\<open>enhanced_lee_filter\<close> (lines 128 to 143), applied to
  given arrays of the local mean \<open>Im\<close>, the local standard deviation \<open>S\<close> and the
  pixels \<open>Ic\<close>.
\<close>

definition enhanced_lee_combine ::
  "fl \<Rightarrow> fl \<Rightarrow> real \<Rightarrow> fl array2 \<Rightarrow> fl array2 \<Rightarrow> fl array2 \<Rightarrow> fl array2" where
  "enhanced_lee_combine Cu Cmax df mean sdev pixels =
     (let Ic = pixels;
          Im = mean;
          S = sdev;
          Ci = zip2d fdiv S Im;
          M2 = map2d (\<lambda>c. fless Cu c \<and> fless c Cmax) Ci;
          W = map2d fexp
                (zip2d (\<lambda>x m. fmul x (of_mask m))
                   (map2d (\<lambda>c. fdiv (fmul (Fin (- df)) (fsub c Cu)) (fsub Cmax c)) Ci) M2);
          R2 = zip2d (\<lambda>x m. fmul x (of_mask m))
                 (zip2d fadd (zip2d fmul Im W)
                             (zip2d fmul Ic (map2d (\<lambda>v. fsub (Fin 1) v) W))) M2;
          M1 = map2d (\<lambda>c. fless_equal c Cu) Ci;
          Im' = zip2d (\<lambda>x m. fmul x (of_mask m)) Im M1;
          M3 = map2d (\<lambda>c. fgreater_equal c Cu) Ci;
          Ic' = zip2d (\<lambda>x m. fmul x (of_mask m)) Ic M3;
          R = zip2d fadd (zip2d fadd Im' R2) Ic'
      in R)"



section \<open>Evaluation on concrete arrays\<close>

lemmas uf_eval = uniform_filter_def uniform_filter_with_def filter_axis0_def filter_axis1_def
  ncols_def uniform_filter1d_def extended_def upt_rec reflect_def fsum_def fsub_def Let_def

lemma uf_030: "uniform_filter [[Fin 0, Fin 3, Fin 0]] (WInt 3) = [[Fin 1, Fin 1, Fin 1]]"
  by (simp add: uf_eval)

lemma uf_090: "uniform_filter [[Fin 0, Fin 9, Fin 0]] (WInt 3) = [[Fin 3, Fin 3, Fin 3]]"
  by (simp add: uf_eval)

text \<open>The two converting filters depend on the input through its floating-point copy.\<close>

lemma lee_filter_astype: "lee_filter img w = lee_filter (Floats (astype_float32 img)) w"
  by (simp add: lee_filter_def)

lemma enhanced_lee_filter_astype:
  "enhanced_lee_filter img looks w df = enhanced_lee_filter (Floats (astype_float32 img)) looks w df"
  by (simp add: enhanced_lee_filter_def)

section \<open>The regions of the enhanced Lee filter\<close>

text \<open>
  C1. The docstring of \<^verbatim>\<open>enhanced_lee_filter\<close> gives \<open>R = Im * W + Ic * (1 - W)\<close> for
  \<open>Cu < Ci < Cmax\<close>. On the one-row image \<open>0 3 0\<close> with \<open>looks = 1\<close>, window 3 and
  \<open>df = 1\<close> every pixel has \<open>Im = 1\<close> and \<open>S = sqrt 2\<close>, hence
  \<open>Cu = 1 < Ci = sqrt 2 < Cmax = sqrt 3\<close>, and the filter returns
  \<open>Im * W + Ic * (1 - W) + Ic\<close>, which at the middle pixel is not the value of the
  docstring: the mask \<open>M3\<close> is taken against \<open>Cu\<close>, so it also holds in the middle
  region and the original pixel is added once more.
\<close>

theorem enhanced_lee_heterogeneous_pixel:
  "uniform_filter [[Fin 0, Fin 3, Fin 0]] (WInt 3) = [[Fin 1, Fin 1, Fin 1]] \<and>
   window_stdev [[Fin 0, Fin 3, Fin 0]] (WInt 3) (Some [[Fin 1, Fin 1, Fin 1]]) None
     = [[Fin (sqrt 2), Fin (sqrt 2), Fin (sqrt 2)]] \<and>
   fless (fsqrt (Fin (1 / 1))) (fdiv (Fin (sqrt 2)) (Fin 1)) \<and>
   fless (fdiv (Fin (sqrt 2)) (Fin 1)) (fsqrt (Fin (1 + 2 / 1))) \<and>
   enhanced_lee_filter (Floats [[Fin 0, Fin 3, Fin 0]]) 1 (WInt 3) 1 =
     (let W = exp (- (sqrt 2 - 1) / (sqrt 3 - sqrt 2))
      in Inr [[Fin (1 * W + 0 * (1 - W) + 0), Fin (1 * W + 3 * (1 - W) + 3),
               Fin (1 * W + 0 * (1 - W) + 0)]]) \<and>
   enhanced_lee_filter (Floats [[Fin 0, Fin 3, Fin 0]]) 1 (WInt 3) 1 \<noteq>
     (let W = exp (- (sqrt 2 - 1) / (sqrt 3 - sqrt 2))
      in Inr [[Fin (1 * W + 0 * (1 - W)), Fin (1 * W + 3 * (1 - W)), Fin (1 * W + 0 * (1 - W))]])"
  by (simp add: enhanced_lee_filter_def Let_def uf_030 uf_090 window_stdev_def np_square_def
      map2d_def zip2d_def fsub_def of_mask_def fgreater_equal_def)

section \<open>Negative variance\<close>

text \<open>
  C6. \<^verbatim>\<open>moving_window_sd\<close> sets the negative entries of mean-of-squares minus squared
  mean to zero; \<^verbatim>\<open>window_stdev\<close> takes the square root of the difference as it is.
  Given a mean 2 and a mean of squares 3 for a pixel, as rounding can produce them, the
  difference is -1 and the standard deviation returned is NaN, not 0.
\<close>

theorem window_stdev_negative_variance_nan:
  "window_stdev [[Fin 1]] (WInt 1) (Some [[Fin 2]]) (Some [[Fin 3]]) = [[NaN]]"
  by (simp add: window_stdev_def np_square_def map2d_def zip2d_def fsub_def)

section \<open>Unknown filter names\<close>

text \<open>
  C7, as amended. A filter name that is neither \<open>lee\<close> nor \<open>elee\<close> after lower-casing
  makes \<^verbatim>\<open>filter_image\<close> raise KeyError, the failure of the dictionary lookup, and the
  world is as before the call: nothing was read, created, written or flushed.
\<close>

theorem filter_image_unknown_filter:
  "lower filter_name \<noteq> ''lee'' \<Longrightarrow> lower filter_name \<noteq> ''elee'' \<Longrightarrow>
   filter_image wd output filter_name kw = (Some KeyError, wd)"
  by (simp add: filter_image_def filters_def)

theorem filter_image_unknown_filter_witness:
  "lower ''Median'' \<noteq> ''lee'' \<and> lower ''Median'' \<noteq> ''elee'' \<and>
   filter_image \<lparr>source = \<lparr>ds_bands = [[[Fin 1]]], ds_flushed = 0\<rparr>, files = Map.empty, trace = []\<rparr>
      (Some ''out.tif'') ''Median'' \<lparr>kw_window = None, kw_looks = None, kw_df = None\<rparr>
   = (Some KeyError,
      \<lparr>source = \<lparr>ds_bands = [[[Fin 1]]], ds_flushed = 0\<rparr>, files = Map.empty, trace = []\<rparr>)"
  using filter_image_unknown_filter [of "''Median''"
      "\<lparr>source = \<lparr>ds_bands = [[[Fin 1]]], ds_flushed = 0\<rparr>, files = Map.empty, trace = []\<rparr>"
      "Some ''out.tif''" "\<lparr>kw_window = None, kw_looks = None, kw_df = None\<rparr>"]
  by (simp add: lower_def lower_char_def)

text \<open>The error raised for the name \<open>median\<close> is KeyError, not ConfigurationError.\<close>

theorem filter_image_unknown_filter_not_configuration_error:
  "fst (filter_image
          \<lparr>source = \<lparr>ds_bands = [[[Fin 1]]], ds_flushed = 0\<rparr>, files = Map.empty, trace = []\<rparr>
          None ''median'' \<lparr>kw_window = None, kw_looks = None, kw_df = None\<rparr>) = Some KeyError \<and>
   fst (filter_image
          \<lparr>source = \<lparr>ds_bands = [[[Fin 1]]], ds_flushed = 0\<rparr>, files = Map.empty, trace = []\<rparr>
          None ''median'' \<lparr>kw_window = None, kw_looks = None, kw_df = None\<rparr>)
     \<noteq> Some ConfigurationError"
  by (simp add: filter_image_def filters_def lower_def lower_char_def)

section \<open>The driver writes every band and flushes once\<close>

lemma filter_bands_success:
  "\<forall>i \<in> set idxs. f (arr ! i) = Inr (g (arr ! i)) \<Longrightarrow>
   filter_bands f arr out idxs wd = (None, fold (band_step g arr out) idxs wd)"
  by (induction idxs arbitrary: wd) (simp_all add: band_step_def Let_def)

lemma fold_band_step_None:
  "fold (band_step g arr None) idxs wd =
     wd\<lparr>source := (source wd)\<lparr>ds_bands := fold (\<lambda>i bs. bs[i := g (arr ! i)]) idxs (ds_bands (source wd))\<rparr>,
        trace := trace wd @ concat (map (\<lambda>i. [PrintBand (i + 1), WriteArray None i]) idxs)\<rparr>"
  by (induction idxs arbitrary: wd)
     (simp_all add: band_step_def WriteArray_band_def log_event_def update_out_def write_band_def)

lemma fold_band_step_Some:
  "files wd p = Some ds \<Longrightarrow>
   fold (band_step g arr (Some p)) idxs wd =
     wd\<lparr>files := (files wd)(p \<mapsto> ds\<lparr>ds_bands := fold (\<lambda>i bs. bs[i := g (arr ! i)]) idxs (ds_bands ds)\<rparr>),
        trace := trace wd @ concat (map (\<lambda>i. [PrintBand (i + 1), WriteArray (Some p) i]) idxs)\<rparr>"
  by (induction idxs arbitrary: wd ds)
     (simp_all add: band_step_def WriteArray_band_def log_event_def update_out_def write_band_def
        map_upd_triv)

lemma fold_update_upt:
  "k \<le> length bs \<Longrightarrow> fold (\<lambda>i bs. bs[i := h i]) [0..<k] bs = map h [0..<k] @ drop k bs"
proof (induction k)
  case 0
  then show ?case by simp
next
  case (Suc k)
  then have "fold (\<lambda>i bs. bs[i := h i]) [0..<Suc k] bs = (map h [0..<k] @ drop k bs)[k := h k]"
    by simp
  also have "\<dots> = map h [0..<k] @ (drop k bs)[0 := h k]"
    by (simp add: list_update_append)
  also have "(drop k bs)[0 := h k] = h k # drop (Suc k) bs"
    using Suc.prems by (cases "drop k bs") (auto simp: drop_Suc drop_tl [symmetric] Cons_nth_drop_Suc [symmetric])
  finally show ?case by simp
qed

lemma fold_update_all:
  "length bs = length arr \<Longrightarrow>
   fold (\<lambda>i bs. bs[i := g (arr ! i)]) [0..<length arr] bs = map g arr"
proof -
  assume len: "length bs = length arr"
  have "map (\<lambda>i. g (arr ! i)) [0..<length arr] = map g (map (\<lambda>i. arr ! i) [0..<length arr])"
    by simp
  also have "\<dots> = map g arr"
    by (simp only: map_nth)
  finally show ?thesis
    using len by (simp add: fold_update_upt)
qed


text \<open>
  C8. Let the filter selected by the name succeed on every band of the source, with
  result \<open>g band\<close>. With \<open>output = None\<close> the call returns normally, the bands of
  the source are the filtered bands \<open>g band\<close> of the bands read at the start, and the
  source was flushed once, after the last write. With an output path the source is
  unchanged, the dataset created under the path holds the filtered bands and was flushed
  exactly once, and the calls made are: read, clone, then for each band in ascending
  order the progress line and the write, then the flush.
\<close>

theorem filter_image_source_or_output:
  assumes sel: "map_of filters (lower filter_name) = Some f"
      and ok: "\<forall>band \<in> set (ds_bands (source wd)). f band kw = Inr (g band)"
  shows "filter_image wd None filter_name kw =
           (None,
            wd\<lparr>source := (source wd)\<lparr>ds_bands := map g (ds_bands (source wd)),
                                     ds_flushed := Suc (ds_flushed (source wd))\<rparr>,
               trace := trace wd @ [ReadAsArray]
                          @ concat (map (\<lambda>i. [PrintBand (i + 1), WriteArray None i])
                                        [0..<length (ds_bands (source wd))])
                          @ [FlushCache None]\<rparr>) \<and>
         filter_image wd (Some path) filter_name kw =
           (None,
            wd\<lparr>files := (files wd)(path \<mapsto>
                           \<lparr>ds_bands = map g (ds_bands (source wd)), ds_flushed = 1\<rparr>),
               trace := trace wd @ [ReadAsArray, CloneRaster path]
                          @ concat (map (\<lambda>i. [PrintBand (i + 1), WriteArray (Some path) i])
                                        [0..<length (ds_bands (source wd))])
                          @ [FlushCache (Some path)]\<rparr>)"
proof -
  let ?arr = "ds_bands (source wd)"
  have each: "\<forall>i \<in> set [0..<length ?arr]. f (?arr ! i) kw = Inr (g (?arr ! i))"
    using ok by simp
  have loop: "filter_bands (\<lambda>band. f band kw) ?arr out [0..<length ?arr] wd' =
                (None, fold (band_step g ?arr out) [0..<length ?arr] wd')" for out wd'
    using each by (rule filter_bands_success)
  have inplace: "filter_image wd None filter_name kw =
           (None,
            wd\<lparr>source := (source wd)\<lparr>ds_bands := map g (ds_bands (source wd)),
                                     ds_flushed := Suc (ds_flushed (source wd))\<rparr>,
               trace := trace wd @ [ReadAsArray]
                          @ concat (map (\<lambda>i. [PrintBand (i + 1), WriteArray None i])
                                        [0..<length (ds_bands (source wd))])
                          @ [FlushCache None]\<rparr>)"
    by (simp add: filter_image_def sel Let_def log_event_def loop FlushCache_out_def update_out_def
        fold_band_step_None fold_update_all)
  let ?wd1 = "cloneRaster path (log_event ReadAsArray wd)"
  have f1: "files ?wd1 path = Some \<lparr>ds_bands = map (map2d (\<lambda>v. Fin 0)) ?arr, ds_flushed = 0\<rparr>"
    by (simp add: cloneRaster_def log_event_def)
  have s1: "source ?wd1 = source wd"
    by (simp add: cloneRaster_def log_event_def)
  have w1: "fold (band_step g ?arr (Some path)) [0..<length ?arr] ?wd1 =
              wd\<lparr>files := (files wd)(path \<mapsto> \<lparr>ds_bands = map g ?arr, ds_flushed = 0\<rparr>),
                 trace := trace wd @ [ReadAsArray, CloneRaster path]
                            @ concat (map (\<lambda>i. [PrintBand (i + 1), WriteArray (Some path) i])
                                          [0..<length ?arr])\<rparr>"
    by (simp add: fold_band_step_Some [OF f1] fold_update_all)
       (simp add: cloneRaster_def log_event_def)
  have tooutput: "filter_image wd (Some path) filter_name kw =
           (None,
            wd\<lparr>files := (files wd)(path \<mapsto>
                           \<lparr>ds_bands = map g (ds_bands (source wd)), ds_flushed = 1\<rparr>),
               trace := trace wd @ [ReadAsArray, CloneRaster path]
                          @ concat (map (\<lambda>i. [PrintBand (i + 1), WriteArray (Some path) i])
                                        [0..<length (ds_bands (source wd))])
                          @ [FlushCache (Some path)]\<rparr>)"
    by (simp add: filter_image_def sel Let_def s1 loop w1)
       (simp add: FlushCache_out_def update_out_def log_event_def)
  from inplace tooutput show ?thesis by (rule conjI)
qed

theorem filter_image_source_or_output_witness:
  "map_of filters (lower ''Lee'') = Some call_lee_filter \<and>
   filter_image
     \<lparr>source = \<lparr>ds_bands = [[[Fin 0, Fin 3, Fin 0]], [[Fin 1, Fin 2, Fin 3]], [[Fin 5, Fin 0, Fin 7]]],
                ds_flushed = 0\<rparr>, files = Map.empty, trace = []\<rparr>
     None ''Lee'' \<lparr>kw_window = Some (WPair 3 3), kw_looks = None, kw_df = None\<rparr> =
     (None,
      \<lparr>source = \<lparr>ds_bands = [lee_filter (Floats [[Fin 0, Fin 3, Fin 0]]) (WPair 3 3),
                             lee_filter (Floats [[Fin 1, Fin 2, Fin 3]]) (WPair 3 3),
                             lee_filter (Floats [[Fin 5, Fin 0, Fin 7]]) (WPair 3 3)],
                 ds_flushed = 1\<rparr>,
       files = Map.empty,
       trace = [ReadAsArray, PrintBand 1, WriteArray None 0, PrintBand 2, WriteArray None 1,
                PrintBand 3, WriteArray None 2, FlushCache None]\<rparr>) \<and>
   filter_image
     \<lparr>source = \<lparr>ds_bands = [[[Fin 0, Fin 3, Fin 0]], [[Fin 1, Fin 2, Fin 3]], [[Fin 5, Fin 0, Fin 7]]],
                ds_flushed = 0\<rparr>, files = Map.empty, trace = []\<rparr>
     (Some ''out.tif'') ''Lee'' \<lparr>kw_window = Some (WPair 3 3), kw_looks = None, kw_df = None\<rparr> =
     (None,
      \<lparr>source = \<lparr>ds_bands = [[[Fin 0, Fin 3, Fin 0]], [[Fin 1, Fin 2, Fin 3]], [[Fin 5, Fin 0, Fin 7]]],
                 ds_flushed = 0\<rparr>,
       files = [''out.tif'' \<mapsto>
                 \<lparr>ds_bands = [lee_filter (Floats [[Fin 0, Fin 3, Fin 0]]) (WPair 3 3),
                              lee_filter (Floats [[Fin 1, Fin 2, Fin 3]]) (WPair 3 3),
                              lee_filter (Floats [[Fin 5, Fin 0, Fin 7]]) (WPair 3 3)],
                  ds_flushed = 1\<rparr>],
       trace = [ReadAsArray, CloneRaster ''out.tif'', PrintBand 1, WriteArray (Some ''out.tif'') 0,
                PrintBand 2, WriteArray (Some ''out.tif'') 1, PrintBand 3,
                WriteArray (Some ''out.tif'') 2, FlushCache (Some ''out.tif'')]\<rparr>)"
proof -
  have low: "lower ''Lee'' = ''lee''"
    by code_simp
  show ?thesis
    using filter_image_source_or_output
      [of "''Lee''" call_lee_filter
          "\<lparr>source = \<lparr>ds_bands = [[[Fin 0, Fin 3, Fin 0]], [[Fin 1, Fin 2, Fin 3]], [[Fin 5, Fin 0, Fin 7]]],
                  ds_flushed = 0\<rparr>, files = Map.empty, trace = []\<rparr>"
          "\<lparr>kw_window = Some (WPair 3 3), kw_looks = None, kw_df = None\<rparr>"
          "\<lambda>band. lee_filter (Floats band) (WPair 3 3)" "''out.tif''"]
    by (simp add: filters_def low call_lee_filter_def upt_rec)
qed
section \<open>The Lee filter leaves its input array alone\<close>

lemmas mem_defs = alloc_def store_def release_def load_def

lemma moving_window_sd_mem_value:
  assumes "data < next_free mem" "cells mem data = Some (Floats a)"
  shows "moving_window_sd_mem data w True True mem =
     ((Suc (next_free mem), Some (Suc (Suc (next_free mem)))),
      mem\<lparr>cells := (cells mem)(next_free mem := None,
                  Suc (next_free mem) \<mapsto> Floats (fst (moving_window_sd a w True True)),
                  Suc (Suc (next_free mem)) \<mapsto> Floats (the (snd (moving_window_sd a w True True)))),
          next_free := Suc (Suc (Suc (next_free mem)))\<rparr>)"
  using assms
  by (simp add: moving_window_sd_mem_def moving_window_sd_def mem_defs Let_def fun_upd_twist)


lemma lee_filter_mem_value:
  assumes "img < next_free mem" "cells mem img = Some a"
  shows "lee_filter_mem img w mem =
     (next_free mem,
      mem\<lparr>cells := (cells mem)(next_free mem \<mapsto> Floats (lee_filter a w),
                  Suc (next_free mem) := None,
                  Suc (Suc (next_free mem)) \<mapsto>
                    Floats (let (v, m) = moving_window_sd (astype_float32 a) w True True;
                                ov = variance (astype_float32 a) (Some (fst (label (astype_float32 a))))
                            in zip2d fdiv v (map2d (\<lambda>x. fadd ov x) v)),
                  Suc (Suc (Suc (next_free mem))) \<mapsto>
                    Floats (the (snd (moving_window_sd (astype_float32 a) w True True))),
                  Suc (Suc (Suc (Suc (next_free mem)))) := None),
          next_free := Suc (Suc (Suc (Suc (Suc (next_free mem)))))\<rparr>)"
  using assms
  apply (simp add: lee_filter_mem_def alloc_def load_def moving_window_sd_mem_value Let_def)
  apply (simp add: mem_defs lee_filter_def Let_def split: prod.splits)
  apply (auto simp: fun_eq_iff)
  done

text \<open>
  C9. Run on buffers, \<^verbatim>\<open>lee_filter\<close> returns a newly allocated array that holds the
  value of the filter, and the caller's array, like every array that existed before
  the call, holds what it held before: every write goes to an array allocated during
  the call.
\<close>

theorem lee_filter_mem_keeps_input:
  assumes "img < next_free mem" "cells mem img = Some a"
  shows "fst (lee_filter_mem img w mem) \<noteq> img \<and>
         cells (snd (lee_filter_mem img w mem)) (fst (lee_filter_mem img w mem))
           = Some (Floats (lee_filter a w)) \<and>
         cells (snd (lee_filter_mem img w mem)) img = Some a \<and>
         (\<forall>p. p < next_free mem \<longrightarrow> cells (snd (lee_filter_mem img w mem)) p = cells mem p)"
  using assms by (simp add: lee_filter_mem_value)

theorem lee_filter_mem_keeps_input_witness:
  "(0::nat) < next_free \<lparr>cells = [0 \<mapsto> Floats [[Fin 0, Fin 3, Fin 0]]], next_free = 1\<rparr> \<and>
   fst (lee_filter_mem 0 (WPair 3 3)
          \<lparr>cells = [0 \<mapsto> Floats [[Fin 0, Fin 3, Fin 0]]], next_free = 1\<rparr>) \<noteq> 0 \<and>
   cells (snd (lee_filter_mem 0 (WPair 3 3)
                 \<lparr>cells = [0 \<mapsto> Floats [[Fin 0, Fin 3, Fin 0]]], next_free = 1\<rparr>))
         (fst (lee_filter_mem 0 (WPair 3 3)
                 \<lparr>cells = [0 \<mapsto> Floats [[Fin 0, Fin 3, Fin 0]]], next_free = 1\<rparr>))
     = Some (Floats (lee_filter (Floats [[Fin 0, Fin 3, Fin 0]]) (WPair 3 3))) \<and>
   cells (snd (lee_filter_mem 0 (WPair 3 3)
                 \<lparr>cells = [0 \<mapsto> Floats [[Fin 0, Fin 3, Fin 0]]], next_free = 1\<rparr>)) 0
     = Some (Floats [[Fin 0, Fin 3, Fin 0]])"
  using lee_filter_mem_keeps_input
    [of 0 "\<lparr>cells = [0 \<mapsto> Floats [[Fin 0, Fin 3, Fin 0]]], next_free = 1\<rparr>"
        "Floats [[Fin 0, Fin 3, Fin 0]]" "WPair 3 3"]
  by simp

section \<open>The overall variance of the Lee filter\<close>

lemma shape_label_step: "map length (label_step ids) = map length ids"
  by (rule nth_equalityI) (simp_all add: label_step_def)

lemma shape_label_init: "map length (label_init a) = map length a"
  by (rule nth_equalityI) (simp_all add: label_init_def)

lemma shape_label_iter: "map length ((label_step ^^ n) ids) = map length ids"
  by (induction n) (simp_all add: shape_label_step)

lemma shape_label_roots: "map length (label_roots a) = map length a"
  by (simp add: label_roots_def shape_label_iter shape_label_init)

lemma positive_row:
  assumes "length r = length s" and pos: "\<And>v q. (0 < F v q) = P v"
  shows "map fst (filter (\<lambda>(v, l). (0::nat) < l) (zip r (map2 F r s))) = filter P r"
  using assms(1) by (induction r s rule: list_induct2) (simp_all add: pos)

lemma positive_array:
  assumes "map length ids = map length a" and pos: "\<And>v q. (0 < F v q) = P v"
  shows "map fst (filter (\<lambda>(v, l). (0::nat) < l) (zip (concat a) (concat (zip2d F a ids))))
           = filter P (concat a)"
  using assms(1)
proof (induction a arbitrary: ids)
  case Nil
  then show ?case by (simp add: zip2d_def)
next
  case (Cons r rs)
  then obtain s ss where ids: "ids = s # ss" and len: "length s = length r"
    and rest: "map length ss = map length rs"
    by (cases ids) auto
  have "zip (r @ concat rs) (map2 F r s @ concat (zip2d F rs ss)) =
          zip r (map2 F r s) @ zip (concat rs) (concat (zip2d F rs ss))"
    using len by (simp add: zip_append)
  then show ?case
    using Cons.IH [OF rest] len
    by (simp add: ids zip2d_def positive_row [OF _ pos])
qed

lemma variance_of_labels:
  "variance a (Some (fst (label a))) = variance_vals (filter nonzero (concat a))"
proof -
  let ?roots = "remdups (filter (\<lambda>r. 0 < r) (concat (label_roots a)))"
  let ?F = "\<lambda>v r. if nonzero v then Suc (length (filter (\<lambda>q. q < r) ?roots)) else 0"
  have "map fst (filter (\<lambda>(v, l). 0 < l) (zip (concat a) (concat (zip2d ?F a (label_roots a)))))
          = filter nonzero (concat a)"
    by (rule positive_array [OF shape_label_roots]) simp
  then show ?thesis
    by (simp add: variance_def label_def Let_def)
qed

lemma lee_filter_scalar_variance:
  "lee_filter img w =
     (let d = astype_float32 img;
          (img_variance, m) = moving_window_sd d w True True;
          img_mean = the m;
          overall_variance = variance_vals (filter nonzero (concat d))
      in zip2d fadd img_mean
           (zip2d fmul (zip2d fdiv img_variance (map2d (\<lambda>v. fadd overall_variance v) img_variance))
                       (zip2d fsub d img_mean)))"
  by (simp add: lee_filter_def Let_def split_beta variance_of_labels)

text \<open>
  C4, as amended. The overall variance that \<^verbatim>\<open>lee_filter\<close> adds to the local variance
  is one number for the whole image: the variance of all its non-zero entries taken
  together. The labels only decide which entries count (those with a positive label,
  that is the non-zero ones); every pixel gets the same value.
\<close>

theorem lee_filter_overall_variance:
  "lee_filter img w =
     (let d = astype_float32 img;
          (img_variance, m) = moving_window_sd d w True True;
          img_mean = the m;
          overall_variance = variance_vals (filter nonzero (concat d))
      in zip2d fadd img_mean
           (zip2d fmul (zip2d fdiv img_variance (map2d (\<lambda>v. fadd overall_variance v) img_variance))
                       (zip2d fsub d img_mean)))"
  by (rule lee_filter_scalar_variance)

lemma label_init_ex: "label_init [[Fin 1, Fin 3, Fin 0, Fin 10, Fin 20]] = [[1,2,0,4,5]]"
  by (simp add: label_init_def ncols_def nonzero_def upt_rec)

lemma step1: "label_step [[1,2,0,4,5]] = [[1,1,0,4,4]]"
  by (simp add: label_step_def at0_def min_pos_def upt_rec)

lemma step2: "label_step [[1,1,0,4,4]] = [[1,1,0,4,4]]"
  by (simp add: label_step_def at0_def min_pos_def upt_rec)

lemma funpow5: "(f ^^ 5) x = f (f (f (f (f x))))"
  by (simp add: eval_nat_numeral)

lemma roots: "label_roots [[Fin 1, Fin 3, Fin 0, Fin 10, Fin 20]] = [[1,1,0,4,4]]"
proof -
  have "label_roots [[Fin 1, Fin 3, Fin 0, Fin 10, Fin 20]] =
          (label_step ^^ 5) (label_init [[Fin 1, Fin 3, Fin 0, Fin 10, Fin 20]])"
    by (simp add: label_roots_def ncols_def funpow5)
  also have "\<dots> = [[1,1,0,4,4]]"
    by (simp only: funpow5 label_init_ex step1 step2)
  finally show ?thesis .
qed

lemma label_two_regions:
  "label [[Fin 1, Fin 3, Fin 0, Fin 10, Fin 20]] = ([[1, 1, 0, 2, 2]], 2)"
  by (simp add: label_def roots zip2d_def nonzero_def Let_def)

text \<open>
  On the one-row image \<open>1 3 0 10 20\<close> the labelling finds two regions, with variances
  1 and 25; the overall variance computed from the labels is 221/4, the variance of
  the four non-zero entries, and not the variance of either region.
\<close>

theorem overall_variance_two_regions:
  "fst (label [[Fin 1, Fin 3, Fin 0, Fin 10, Fin 20]]) = [[1, 1, 0, 2, 2]] \<and>
   region_variance [[Fin 1, Fin 3, Fin 0, Fin 10, Fin 20]] [[1, 1, 0, 2, 2]] 1 = Fin 1 \<and>
   region_variance [[Fin 1, Fin 3, Fin 0, Fin 10, Fin 20]] [[1, 1, 0, 2, 2]] 2 = Fin 25 \<and>
   variance [[Fin 1, Fin 3, Fin 0, Fin 10, Fin 20]] (Some [[1, 1, 0, 2, 2]]) = Fin (221 / 4)"
  by (simp add: label_two_regions region_variance_def variance_def variance_vals_def fsum_def fsub_def Let_def)

section \<open>The Lee filter on a constant image\<close>

lemma reflect_less: "0 < n \<Longrightarrow> reflect i n < n"
  by (auto simp add: reflect_def Let_def)

lemma foldl_fadd_replicate:
  "foldl fadd (Fin a) (replicate n (Fin c)) = Fin (a + real n * c)"
  by (induction n arbitrary: a) (simp_all add: algebra_simps)

lemma fsum_replicate: "fsum (replicate n (Fin c)) = Fin (real n * c)"
  by (simp add: fsum_def foldl_fadd_replicate)

lemma extended_replicate: "0 < m \<Longrightarrow> extended (replicate m v) n k = v"
  by (simp add: extended_def reflect_less)

lemma running_sum_replicate:
  assumes "0 < m"
  shows "running_sum (replicate m (Fin c)) n l = Fin (real n * c)"
proof (induction l)
  case 0
  have "map (extended (replicate m (Fin c)) n) [0..<n] = replicate n (Fin c)"
    using assms by (simp add: extended_replicate map_replicate_const cong: map_cong)
  then show ?case
    by (simp add: fsum_replicate)
next
  case (Suc l)
  then show ?case
    using assms by (simp add: extended_replicate fsub_def)
qed

lemma uniform_filter1d_replicate:
  assumes "0 < n"
  shows "uniform_filter1d (replicate m (Fin c)) n = replicate m (Fin c)"
proof (cases "m = 0")
  case True
  then show ?thesis by (simp add: uniform_filter1d_def)
next
  case False
  then have "uniform_filter1d (replicate m (Fin c)) n = map (\<lambda>l. Fin c) [0..<m]"
    unfolding uniform_filter1d_def using assms
    by (simp add: running_sum_replicate)
  then show ?thesis
    by (simp add: map_replicate_const)
qed

lemma filter_axis0_replicate:
  assumes "f (replicate h v) = replicate h v"
  shows "filter_axis0 f (replicate h (replicate w v)) = replicate h (replicate w v)"
proof (cases h)
  case 0
  then show ?thesis by (simp add: filter_axis0_def)
next
  case (Suc h')
  have nc: "ncols (replicate h (replicate w v)) = w"
    by (simp add: ncols_def Suc)
  have col: "map (\<lambda>r. r ! j) (replicate h (replicate w v)) = replicate h v" if "j < w" for j
    using that by simp
  have "map (\<lambda>j. f (map (\<lambda>r. r ! j) (replicate h (replicate w v)))) [0..<w]
          = map (\<lambda>j. replicate h v) [0..<w]"
    by (rule map_cong) (simp_all add: assms)
  then have cols: "map (\<lambda>j. f (map (\<lambda>r. r ! j) (replicate h (replicate w v)))) [0..<w]
                = replicate w (replicate h v)"
    by (simp add: map_replicate_const)
  have row: "map (\<lambda>c. c ! i) (replicate w (replicate h v)) = replicate w v" if "i < h" for i
    using that by simp
  have "map (\<lambda>i. map (\<lambda>c. c ! i) (replicate w (replicate h v))) [0..<h]
          = map (\<lambda>i. replicate w v) [0..<h]"
    by (rule map_cong) (simp_all add: row del: map_replicate)
  then show ?thesis
    unfolding filter_axis0_def nc Let_def cols
    by (simp add: map_replicate_const)
qed

lemma uniform_filter_replicate:
  "uniform_filter (replicate h (replicate w (Fin c))) win = replicate h (replicate w (Fin c))"
  by (cases win)
     (simp_all add: uniform_filter_def uniform_filter_with_def filter_axis1_def Let_def
        filter_axis0_replicate uniform_filter1d_replicate)

lemma map2d_replicate: "map2d f (replicate h (replicate w v)) = replicate h (replicate w (f v))"
  by (simp add: map2d_def)

lemma zip2d_replicate:
  "zip2d f (replicate h (replicate w a)) (replicate h (replicate w b))
     = replicate h (replicate w (f a b))"
  by (simp add: zip2d_def zip_replicate)



lemma zip2d_same: "zip2d f a a = map2d (\<lambda>x. f x x) a"
  by (simp add: zip2d_def map2d_def zip_same_conv_map)













section \<open>The two Lee filters compared\<close>







section \<open>The unguarded division of the enhanced Lee filter\<close>

lemma entry_map2d: "entry a i j x \<Longrightarrow> entry (map2d f a) i j (f x)"
  by (simp add: entry_def map2d_def)

lemma entry_zip2d: "entry a i j x \<Longrightarrow> entry b i j y \<Longrightarrow> entry (zip2d f a b) i j (f x y)"
  by (simp add: entry_def zip2d_def)

lemma enhanced_lee_filter_combine:
  "enhanced_lee_filter img looks w df =
     (if looks = 0 then Inl ZeroDivisionError
      else Inr (enhanced_lee_combine (fsqrt (Fin (1 / looks))) (fsqrt (Fin (1 + 2 / looks))) df
                  (uniform_filter (astype_float32 img) w)
                  (window_stdev (astype_float32 img) w (Some (uniform_filter (astype_float32 img) w)) None)
                  (astype_float32 img)))"
  by (simp add: enhanced_lee_filter_def enhanced_lee_combine_def Let_def)

lemma enhanced_lee_combine_entry:
  assumes m: "entry mean i j m" and s: "entry sdev i j s" and p: "entry pixels i j p"
  shows "entry (enhanced_lee_combine Cu Cmax df mean sdev pixels) i j
           (enhanced_lee_pixel Cu Cmax df m s p)"
  unfolding enhanced_lee_combine_def enhanced_lee_pixel_def Let_def
  by (intro entry_zip2d entry_map2d m s p)

lemma enhanced_lee_pixel_zero_mean:
  "enhanced_lee_pixel (Fin cu) (Fin cmax) df (Fin 0) s p = NaN"
  by (cases s) (simp_all add: enhanced_lee_pixel_def Let_def fsub_def of_mask_def
      fgreater_equal_def inf_signed_def)

lemma window_stdev_zero:
  "window_stdev (replicate h (replicate w (Fin 0))) win (Some (replicate h (replicate w (Fin 0)))) None
     = replicate h (replicate w (Fin 0))"
  by (simp add: window_stdev_def np_square_def map2d_replicate zip2d_replicate
      uniform_filter_replicate fsub_def)

lemma enhanced_lee_combine_replicate:
  "enhanced_lee_combine Cu Cmax df (replicate h (replicate w m)) (replicate h (replicate w s))
      (replicate h (replicate w p))
     = replicate h (replicate w (enhanced_lee_pixel Cu Cmax df m s p))"
  by (simp add: enhanced_lee_combine_def enhanced_lee_pixel_def Let_def map2d_replicate
      zip2d_replicate)

lemma enhanced_lee_filter_zero:
  assumes "0 < looks"
  shows "enhanced_lee_filter (Floats (replicate h (replicate w (Fin 0)))) looks win df
           = Inr (replicate h (replicate w NaN))"
proof -
  have pos: "\<not> 1 + 2 / looks < 0"
    using assms by (simp add: not_less add_nonneg_nonneg)
  show ?thesis
    using assms pos
    by (simp add: enhanced_lee_filter_combine uniform_filter_replicate window_stdev_zero
        enhanced_lee_combine_replicate enhanced_lee_pixel_zero_mean)
qed

text \<open>
  C2, as amended. For \<open>looks > 0\<close> and an input of any dtype the filter applies its
  array operations to the local mean, the local standard deviation and the
  floating-point copy of the input, and divides the standard deviation by the mean
  without a guard. At a pixel whose local mean is 0 these operations give NaN,
  whatever the standard deviation, the pixel and the damping factor are: \<open>Ci\<close> is NaN
  or an infinity there, and the product with the zero mask \<open>M2\<close> does not remove it.
  On an all-zero image of any shape every entry of the result is NaN.
\<close>

theorem enhanced_lee_zero_mean_nan:
  assumes "0 < looks"
      and "entry mean i j (Fin 0)" and "entry sdev i j s" and "entry pixels i j p"
      and "0 < h" and "0 < w"
  shows "enhanced_lee_filter img looks win df =
           Inr (enhanced_lee_combine (fsqrt (Fin (1 / looks))) (fsqrt (Fin (1 + 2 / looks))) df
                  (uniform_filter (astype_float32 img) win)
                  (window_stdev (astype_float32 img) win
                     (Some (uniform_filter (astype_float32 img) win)) None)
                  (astype_float32 img)) \<and>
         entry (enhanced_lee_combine (fsqrt (Fin (1 / looks))) (fsqrt (Fin (1 + 2 / looks))) df
                  mean sdev pixels) i j NaN \<and>
         enhanced_lee_filter (Floats (replicate h (replicate w (Fin 0)))) looks win df
           = Inr (replicate h (replicate w NaN))"
proof -
  have pos: "\<not> 1 + 2 / looks < 0"
    using assms(1) by (simp add: not_less add_nonneg_nonneg)
  have "entry (enhanced_lee_combine (fsqrt (Fin (1 / looks))) (fsqrt (Fin (1 + 2 / looks))) df
                  mean sdev pixels) i j
          (enhanced_lee_pixel (fsqrt (Fin (1 / looks))) (fsqrt (Fin (1 + 2 / looks))) df (Fin 0) s p)"
    using assms(2-4) by (rule enhanced_lee_combine_entry)
  then have "entry (enhanced_lee_combine (fsqrt (Fin (1 / looks))) (fsqrt (Fin (1 + 2 / looks))) df
                  mean sdev pixels) i j NaN"
    using assms(1) pos by (simp add: enhanced_lee_pixel_zero_mean)
  then show ?thesis
    using assms(1) enhanced_lee_filter_zero [OF assms(1)]
    by (simp add: enhanced_lee_filter_combine)
qed

theorem enhanced_lee_zero_mean_nan_witness:
  "(0::real) < 1 \<and> entry [[Fin 0, Fin 5]] 0 0 (Fin 0) \<and> entry [[Fin 2, Fin 1]] 0 0 (Fin 2) \<and>
   entry [[Fin 7, Fin 3]] 0 0 (Fin 7) \<and> (0::nat) < 2 \<and> (0::nat) < 3 \<and>
   entry (enhanced_lee_combine (fsqrt (Fin (1 / 1))) (fsqrt (Fin (1 + 2 / 1))) 1
            [[Fin 0, Fin 5]] [[Fin 2, Fin 1]] [[Fin 7, Fin 3]]) 0 0 NaN \<and>
   enhanced_lee_filter (Floats (replicate 2 (replicate 3 (Fin 0)))) 1 (WInt 7) 1
     = Inr (replicate 2 (replicate 3 NaN))"
  using enhanced_lee_zero_mean_nan [where looks = 1 and mean = "[[Fin 0, Fin 5]]" and i = 0
      and j = 0 and sdev = "[[Fin 2, Fin 1]]" and s = "Fin 2" and pixels = "[[Fin 7, Fin 3]]"
      and p = "Fin 7" and h = 2 and w = 3 and img = "Floats [[Fin 1]]" and win = "WInt 7"
      and df = 1]
  by (simp add: entry_def)

text \<open>
  The all-zero row \<open>0 0 0\<close> (\<open>looks = 1\<close>, window 7, \<open>df = 1\<close>) is finite and not
  negative; every local mean is 0 and every output is NaN, not 0.
\<close>

theorem enhanced_lee_nan_output:
  "enhanced_lee_filter (Floats [[Fin 0, Fin 0, Fin 0]]) 1 (WInt 7) 1 = Inr [[NaN, NaN, NaN]] \<and>
   enhanced_lee_filter (Floats [[Fin 0, Fin 0, Fin 0]]) 1 (WInt 7) 1
     \<noteq> Inr [[Fin 0, Fin 0, Fin 0]]"
  using enhanced_lee_filter_zero [of 1 1 3 "WInt 7" 1]
  by (simp add: eval_nat_numeral)

section \<open>Data types of the filters\<close>

lemma bit_length_le: "n < 2 ^ p \<Longrightarrow> bit_length n \<le> p"
proof (induction p arbitrary: n)
  case 0
  then show ?case by (simp add: bit_length.simps)
next
  case (Suc p)
  show ?case
  proof (cases "n = 0")
    case True
    then show ?thesis by (simp add: bit_length.simps)
  next
    case False
    from Suc.prems have "n div 2 < 2 ^ p" by simp
    then have "bit_length (n div 2) \<le> p" by (rule Suc.IH)
    with False show ?thesis by (subst bit_length.simps) simp
  qed
qed

lemma round_int_small: "\<bar>x\<bar> < 2 ^ p \<Longrightarrow> round_int p x = x"
proof -
  assume a: "\<bar>x\<bar> < 2 ^ p"
  have "nat \<bar>x\<bar> < 2 ^ p"
    using a by (simp add: nat_less_iff)
  then have "bit_length (nat \<bar>x\<bar>) \<le> p" by (rule bit_length_le)
  then show ?thesis by (simp add: round_int_def Let_def)
qed

lemma int_to_float_small: "\<bar>x\<bar> < 2 ^ p \<Longrightarrow> int_to_float p x = Fin (real_of_int x)"
  by (simp add: int_to_float_def round_int_small)

lemma astype_float32_round:
  "astype_float32 (Ints 32 [[16777217]]) = [[Fin 16777216]]"
  by (simp add: map2d_def int_to_float_def round_int_def Let_def bit_length.simps)

lemmas ufi_eval = uniform_filter_with_def filter_axis0_def filter_axis1_def ncols_def
  uniform_filter1d_int_def uniform_filter1d_def extended_def upt_rec reflect_def fsum_def
  fsub_def Let_def

lemma ufi_eval_a: "uniform_filter_with uniform_filter1d_int [[0, 405, 0]] (WPair 3 3) = [[135, 135, 135]]"
  by (simp add: ufi_eval int_to_float_small)

lemma ufi_eval_b: "uniform_filter_with uniform_filter1d_int [[0, - 32583, 0]] (WPair 3 3)
   = [[- 10861, - 10861, - 10861]]"
  by (simp add: ufi_eval int_to_float_small)

lemma ufi_eval_c: "uniform_filter_with uniform_filter1d_int [[0, 32953, 0]] (WPair 3 3)
   = [[10984, 10984, 10984]]"
  by (simp add: ufi_eval int_to_float_small)

lemma ufi_eval_d: "uniform_filter_with uniform_filter1d_int [[0, 1, 0]] (WPair 3 3) = [[0, 0, 0]]"
  by (simp add: ufi_eval int_to_float_small)

lemma wrap_405: "wrap 16 (405 * 405) = - 32583"
  by (simp add: wrap_def signed_take_bit_eq_take_bit_shift take_bit_eq_mod)

lemma uwrap_405: "uwrap 16 (405 * 405) = 32953"
  by (simp add: uwrap_def take_bit_eq_mod)

lemma lee_filter2_Ints:
  "lee_filter2 (Ints bits a) w =
     (let img_mean = uniform_filter_with uniform_filter1d_int a w;
          img_sqr = map2d (\<lambda>x. wrap bits (x * x)) a;
          img_sqr_mean = uniform_filter_with uniform_filter1d_int img_sqr w;
          img_variance = zip2d (\<lambda>x y. wrap bits (x - y)) img_sqr_mean
                           (map2d (\<lambda>x. wrap bits (x * x)) img_mean);
          overall_variance = variance_vals (concat (map2d (int_to_float 53) a));
          img_weights = zip2d fdiv (map2d (int_to_float 53) img_variance)
                          (map2d (\<lambda>v. fadd v overall_variance)
                             (map2d (int_to_float 53) img_variance))
      in Floats (zip2d fadd (map2d (int_to_float 53) img_mean)
                   (zip2d fmul img_weights
                      (map2d (int_to_float 53) (zip2d (\<lambda>x y. wrap bits (x - y)) a img_mean)))))"
  by (simp add: lee_filter2_def Let_def nd_square_def nd_true_divide_def variance_def zip2d_same)

lemma lee_filter2_UInts:
  "lee_filter2 (UInts bits a) w =
     (let img_mean = uniform_filter_with uniform_filter1d_int a w;
          img_sqr = map2d (\<lambda>x. uwrap bits (x * x)) a;
          img_sqr_mean = uniform_filter_with uniform_filter1d_int img_sqr w;
          img_variance = zip2d (\<lambda>x y. uwrap bits (x - y)) img_sqr_mean
                           (map2d (\<lambda>x. uwrap bits (x * x)) img_mean);
          overall_variance = variance_vals (concat (map2d (int_to_float 53) a));
          img_weights = zip2d fdiv (map2d (int_to_float 53) img_variance)
                          (map2d (\<lambda>v. fadd v overall_variance)
                             (map2d (int_to_float 53) img_variance))
      in Floats (zip2d fadd (map2d (int_to_float 53) img_mean)
                   (zip2d fmul img_weights
                      (map2d (int_to_float 53) (zip2d (\<lambda>x y. uwrap bits (x - y)) a img_mean)))))"
  by (simp add: lee_filter2_def Let_def nd_square_def nd_true_divide_def variance_def zip2d_same)

lemma lee_filter2_int16:
  "lee_filter2 (Ints 16 [[0, 405, 0]]) (WPair 3 3)
     = Floats [[Fin (2460375 / 3682), Fin (- 1714770 / 1841), Fin (2460375 / 3682)]]"
  by (simp add: lee_filter2_Ints Let_def map2d_def zip2d_def ufi_eval_a ufi_eval_b
      variance_vals_def int_to_float_small fsum_def fsub_def wrap_def
      signed_take_bit_eq_take_bit_shift take_bit_eq_mod)

lemma lee_filter2_uint16:
  "lee_filter2 (UInts 16 [[0, 405, 0]]) (WPair 3 3)
     = Floats [[Fin (109295482 / 2707), Fin (5706045 / 18949), Fin (109295482 / 2707)]]"
  by (simp add: lee_filter2_UInts Let_def map2d_def zip2d_def ufi_eval_a ufi_eval_c
      variance_vals_def int_to_float_small fsum_def fsub_def uwrap_def take_bit_eq_mod)

lemma lee_filter2_int16_010:
  "lee_filter2 (Ints 16 [[0, 1, 0]]) (WPair 3 3) = Floats [[Fin 0, Fin 0, Fin 0]]"
  by (simp add: lee_filter2_Ints Let_def map2d_def zip2d_def ufi_eval_d
      variance_vals_def int_to_float_small fsum_def fsub_def wrap_def
      signed_take_bit_eq_take_bit_shift take_bit_eq_mod)

lemma uf_0_405: "uniform_filter [[Fin 0, Fin 405, Fin 0]] (WPair 3 3) = [[Fin 135, Fin 135, Fin 135]]"
  by (simp add: uf_eval)

lemma uf_0_405_sq: "uniform_filter [[Fin 0, Fin 164025, Fin 0]] (WPair 3 3) = [[Fin 54675, Fin 54675, Fin 54675]]"
  by (simp add: uf_eval)

lemma lee_filter2_float_405:
  "lee_filter2 (Floats [[Fin 0, Fin 405, Fin 0]]) (WPair 3 3)
     = Floats [[Fin (135 / 2), Fin 270, Fin (135 / 2)]]"
  by (simp add: lee_filter2_def nd_square_def nd_true_divide_def map2d_def zip2d_def
      uf_0_405 uf_0_405_sq fsub_def variance_def variance_vals_def fsum_def Let_def)

text \<open>
  C10, as amended. \<^verbatim>\<open>lee_filter\<close> and \<^verbatim>\<open>enhanced_lee_filter\<close> depend on their input only
  through its \<^verbatim>\<open>float32\<close> copy, whatever its dtype (the 32-bit integer 16777217 becomes
  16777216). \<^verbatim>\<open>lee_filter2\<close> does not convert. On an integer array, signed or
  unsigned, of any width, the box means are integers (truncated), the squares of the
  input and of the mean, the local variance and the difference of the input and the
  mean are reduced into the range of the dtype, and only then do the overall variance
  and the true division by it bring in floating-point numbers; the result is a
  floating-point array. With 16 bits the square of 405 is -32583 (signed) or 32953
  (unsigned), and the results on the row \<open>0 405 0\<close> differ from each other and from
  the result on the same values as floating-point numbers; on the 16-bit row \<open>0 1 0\<close>
  every box mean is truncated to 0 and the result is 0 everywhere.
\<close>

theorem lee_filter2_keeps_input_dtype:
  "lee_filter img w = lee_filter (Floats (astype_float32 img)) w \<and>
   enhanced_lee_filter img looks w df
     = enhanced_lee_filter (Floats (astype_float32 img)) looks w df \<and>
   astype_float32 (Ints 32 [[16777217]]) = [[Fin 16777216]] \<and>
   lee_filter2 (Ints bits a) w =
     (let img_mean = uniform_filter_with uniform_filter1d_int a w;
          img_sqr = map2d (\<lambda>x. wrap bits (x * x)) a;
          img_sqr_mean = uniform_filter_with uniform_filter1d_int img_sqr w;
          img_variance = zip2d (\<lambda>x y. wrap bits (x - y)) img_sqr_mean
                           (map2d (\<lambda>x. wrap bits (x * x)) img_mean);
          overall_variance = variance_vals (concat (map2d (int_to_float 53) a));
          img_weights = zip2d fdiv (map2d (int_to_float 53) img_variance)
                          (map2d (\<lambda>v. fadd v overall_variance)
                             (map2d (int_to_float 53) img_variance))
      in Floats (zip2d fadd (map2d (int_to_float 53) img_mean)
                   (zip2d fmul img_weights
                      (map2d (int_to_float 53)
                         (zip2d (\<lambda>x y. wrap bits (x - y)) a img_mean))))) \<and>
   lee_filter2 (UInts bits a) w =
     (let img_mean = uniform_filter_with uniform_filter1d_int a w;
          img_sqr = map2d (\<lambda>x. uwrap bits (x * x)) a;
          img_sqr_mean = uniform_filter_with uniform_filter1d_int img_sqr w;
          img_variance = zip2d (\<lambda>x y. uwrap bits (x - y)) img_sqr_mean
                           (map2d (\<lambda>x. uwrap bits (x * x)) img_mean);
          overall_variance = variance_vals (concat (map2d (int_to_float 53) a));
          img_weights = zip2d fdiv (map2d (int_to_float 53) img_variance)
                          (map2d (\<lambda>v. fadd v overall_variance)
                             (map2d (int_to_float 53) img_variance))
      in Floats (zip2d fadd (map2d (int_to_float 53) img_mean)
                   (zip2d fmul img_weights
                      (map2d (int_to_float 53)
                         (zip2d (\<lambda>x y. uwrap bits (x - y)) a img_mean))))) \<and>
   wrap 16 (405 * 405) = - 32583 \<and>
   uwrap 16 (405 * 405) = 32953 \<and>
   lee_filter2 (Ints 16 [[0, 405, 0]]) (WPair 3 3)
     = Floats [[Fin (2460375 / 3682), Fin (- 1714770 / 1841), Fin (2460375 / 3682)]] \<and>
   lee_filter2 (UInts 16 [[0, 405, 0]]) (WPair 3 3)
     = Floats [[Fin (109295482 / 2707), Fin (5706045 / 18949), Fin (109295482 / 2707)]] \<and>
   lee_filter2 (Floats [[Fin 0, Fin 405, Fin 0]]) (WPair 3 3)
     = Floats [[Fin (135 / 2), Fin 270, Fin (135 / 2)]] \<and>
   uniform_filter_with uniform_filter1d_int [[0, 1, 0]] (WPair 3 3) = [[0, 0, 0]] \<and>
   lee_filter2 (Ints 16 [[0, 1, 0]]) (WPair 3 3) = Floats [[Fin 0, Fin 0, Fin 0]]"
  by (intro conjI lee_filter_astype enhanced_lee_filter_astype astype_float32_round
      lee_filter2_int16 lee_filter2_uint16 lee_filter2_float_405 lee_filter2_int16_010
      lee_filter2_Ints lee_filter2_UInts wrap_405 uwrap_405 ufi_eval_d)

text \<open>
  The arithmetic of \<^verbatim>\<open>lee_filter2\<close> does not all stay in the dtype of the input: for
  the 16-bit integer row \<open>0 405 0\<close> the result is a floating-point array with entries
  that are not integers.
\<close>

theorem lee_filter2_int16_returns_float:
  "lee_filter2 (Ints 16 [[0, 405, 0]]) (WPair 3 3)
     = Floats [[Fin (2460375 / 3682), Fin (- 1714770 / 1841), Fin (2460375 / 3682)]]"
  by (rule lee_filter2_int16)

end
